theory Spec2Isabelle
  imports Main "HOL-Library.Word" "HOL-Library.Monad_Syntax"
begin

unbundle bit_operations_syntax

section \<open>Basic types\<close>

text \<open>
  Go's \<open>byte\<close> is an 8-bit word and \<open>[]byte\<close> a list of them. Go's \<open>int\<close> and \<open>uint\<close> are
  64-bit words on the targets the library is built for: \<open>+\<close> wraps, \<open>sint\<close> reads an
  \<open>int\<close>. A \<open>nil\<close> slice and an empty one are both \<open>[]\<close>, except where the source
  tests a slice against \<open>nil\<close>; there it is an \<open>option\<close>.
\<close>

type_synonym byte = "8 word"
type_synonym bytes = "byte list"
type_synonym go_int = "64 word"
type_synonym go_uint = "64 word"

definition bytes_of :: "string \<Rightarrow> bytes" where
  "bytes_of s = map of_char s"

datatype error =
    ErrConfigurationInvalidLength
  | ErrAkeInvalidClientMac
  | ErrInvalidState
  | ErrDecodingPeerEphemeralPublicKey
  | ErrDecodingPeerPublicKey
  | ErrOprfEvaluation
  | ErrRegistrationResponse error
  | ErrOprfResponse error

section \<open>Package internal/encoding\<close>

text \<open>
  Modelled from the spec: package \<open>internal/encoding\<close> is not among the sources. Section 4.1:
  \<open>I2OSP(n, w)\<close> is the big-endian \<open>w\<close>-byte integer and fails (a panic, here \<open>None\<close>) if
  \<open>n\<close> does not fit in \<open>w\<close> bytes; \<open>OS2IP(b)\<close> is the integer from bytes;
  \<open>EncodeVector(b, w)\<close> prepends a \<open>w\<close>-byte big-endian length; \<open>Concat\<close>, \<open>Concat3\<close> and
  \<open>Concatenate\<close> join bytes. \<open>SuffixString(b, s)\<close> is \<open>b\<close> followed by the tag \<open>s\<close>, as in
  \<open>credential-identifier \<parallel> "OprfKey"\<close>.
\<close>

fun be_bytes :: "nat \<Rightarrow> nat \<Rightarrow> bytes" where
  "be_bytes 0 n = []"
| "be_bytes (Suc w) n = be_bytes w (n div 256) @ [of_nat (n mod 256)]"

definition I2OSP :: "go_int \<Rightarrow> nat \<Rightarrow> bytes option" where
  "I2OSP n w =
     (if 0 \<le> sint n \<and> sint n < 256 ^ w then Some (be_bytes w (nat (sint n))) else None)"

definition OS2IP :: "bytes \<Rightarrow> go_int" where
  "OS2IP b = foldl (\<lambda>acc x. acc * 256 + ucast x) 0 b"

definition len :: "'a list \<Rightarrow> go_int" where
  "len xs = of_nat (length xs)"

definition EncodeVectorLen :: "bytes \<Rightarrow> nat \<Rightarrow> bytes option" where
  "EncodeVectorLen input w = map_option (\<lambda>l. l @ input) (I2OSP (len input) w)"

definition EncodeVector :: "bytes \<Rightarrow> bytes option" where
  "EncodeVector input = EncodeVectorLen input 2"

definition Concat :: "bytes \<Rightarrow> bytes \<Rightarrow> bytes" where
  "Concat a b = a @ b"

definition Concat3 :: "bytes \<Rightarrow> bytes \<Rightarrow> bytes \<Rightarrow> bytes" where
  "Concat3 a b c = a @ b @ c"

definition Concatenate :: "bytes list \<Rightarrow> bytes" where
  "Concatenate xs = concat xs"

definition SuffixString :: "bytes \<Rightarrow> string \<Rightarrow> bytes" where
  "SuffixString a s = a @ bytes_of s"

section \<open>opaque.go: the configuration\<close>

text \<open>\<open>type Mode byte\<close>, with \<open>Internal Mode = iota + 1\<close> and \<open>External\<close> after it.\<close>

definition Internal :: byte where
  "Internal = 1"

definition External :: byte where
  "External = 2"

definition confLength :: nat where
  "confLength = 7"

text \<open>
  \<open>Group\<close>, \<open>mhf.Identifier\<close> and \<open>Mode\<close> are bytes. \<open>hash.Hashing\<close> is declared in an
  external package, over Go's \<open>crypto.Hash\<close>, a \<open>uint\<close>: \<open>byte(c.KDF)\<close> keeps its low eight
  bits.
\<close>

record Configuration =
  Group :: byte
  KDF :: go_uint
  MAC :: go_uint
  Hash :: go_uint
  MHF :: byte
  Mode :: byte
  Context :: bytes
  NonceLen :: go_int

text \<open>
  \<open>Configuration.Serialize\<close>. \<open>encoding.I2OSP(c.NonceLen, 1)[0]\<close> panics when \<open>NonceLen\<close>
  does not fit in a byte: the result is \<open>None\<close> then.
\<close>

definition Serialize :: "Configuration \<Rightarrow> bytes option" where
  "Serialize c =
     (case I2OSP (NonceLen c) 1 of
        None \<Rightarrow> None
      | Some v \<Rightarrow>
          Some [Group c, ucast (KDF c), ucast (MAC c), ucast (Hash c), MHF c, Mode c, v ! 0])"

definition DeserializeConfiguration :: "bytes \<Rightarrow> error + Configuration" where
  "DeserializeConfiguration encoded =
     (if length encoded \<noteq> confLength then Inl ErrConfigurationInvalidLength
      else Inr \<lparr>Group = encoded ! 0,
                KDF = ucast (encoded ! 1),
                MAC = ucast (encoded ! 2),
                Hash = ucast (encoded ! 3),
                MHF = encoded ! 4,
                Mode = encoded ! 5,
                Context = [],
                NonceLen = OS2IP (drop 6 encoded)\<rparr>)"

section \<open>External collaborators\<close>

text \<open>
  The hash, KDF, MAC and memory-hard primitives, the prime-order group and the OPRF live in
  external packages, wrapped by package \<open>internal\<close>. They are parameters of the model:
  records of the operations the sources call on them. \<open>Hash.Sum\<close> is the digest of
  everything written so far. A failing \<open>Decode\<close> is \<open>None\<close>.
\<close>

record KDF =
  Extract :: "bytes \<Rightarrow> bytes \<Rightarrow> bytes"
  Expand :: "bytes \<Rightarrow> bytes \<Rightarrow> go_int \<Rightarrow> bytes"
  Size :: go_int

record Mac =
  MAC :: "bytes \<Rightarrow> bytes \<Rightarrow> bytes"
  Size :: go_int

record Hash =
  Sum :: "bytes \<Rightarrow> bytes"
  Size :: go_int

record MHF =
  Harden :: "bytes \<Rightarrow> bytes \<Rightarrow> go_int \<Rightarrow> bytes"

record 's OPRF =
  DeriveKey :: "bytes \<Rightarrow> bytes \<Rightarrow> 's"
  Evaluate :: "'s \<Rightarrow> bytes \<Rightarrow> error + bytes"

record ('s, 'e) group =
  Base :: 'e
  Mult :: "'e \<Rightarrow> 's \<Rightarrow> 'e"
  Bytes :: "'e \<Rightarrow> bytes"
  Decode :: "bytes \<Rightarrow> 'e option"

text \<open>
  What \<open>opaque.go\<close> and \<open>server.go\<close> take from other packages: the identifier constants
  \<open>oprf.RistrettoSha512\<close>, \<open>hash.SHA512\<close> and \<open>mhf.Scrypt\<close>, the wrappers built from
  \<open>c.KDF.Get()\<close>, \<open>c.MAC.Get()\<close>, \<open>c.Hash.Get()\<close> and \<open>c.MHF.Get()\<close>, the tables
  \<open>encoding.PointLength\<close> and \<open>encoding.ScalarLength\<close> (a Go map read at a missing key is
  0, so they are total) and \<open>oprf.Ciphersuite\<close>.
\<close>

record 's extern =
  RistrettoSha512 :: byte
  SHA512 :: go_uint
  Scrypt :: byte
  KDF_Get :: "go_uint \<Rightarrow> KDF"
  MAC_Get :: "go_uint \<Rightarrow> Mac"
  Hash_Get :: "go_uint \<Rightarrow> Hash"
  MHF_Get :: "byte \<Rightarrow> MHF"
  PointLength :: "byte \<Rightarrow> go_int"
  ScalarLength :: "byte \<Rightarrow> go_int"
  Ciphersuite :: "byte \<Rightarrow> 's OPRF"

text \<open>
  Modelled from the spec: \<open>encoding.PadPoint\<close> is not among the sources. Section 4.1:
  \<open>PadPoint(b, g)\<close> left-zero-pads to the group element length.
\<close>

definition PadPoint :: "'s extern \<Rightarrow> bytes \<Rightarrow> byte \<Rightarrow> bytes" where
  "PadPoint x b g = replicate (nat (sint (PointLength x g)) - length b) 0 @ b"

text \<open>
  Go's \<open>make([]byte, l)\<close> panics (\<open>makeslice: len out of range\<close>) for a negative length
  and for one above the runtime's allocation limit, \<open>maxAlloc\<close>, which is \<open>2^48\<close> bytes on
  64-bit Linux; otherwise it yields \<open>l\<close> zero bytes.
\<close>

definition maxAlloc :: int where
  "maxAlloc = 2 ^ 48"

definition make_bytes :: "go_int \<Rightarrow> bytes option" where
  "make_bytes l =
     (if sint l < 0 \<or> maxAlloc < sint l then None else Some (replicate (nat (sint l)) 0))"

section \<open>opaque.go: the derived parameters\<close>

text \<open>\<open>internal.Parameters\<close>, with the fields \<open>toInternal\<close> fills.\<close>

record 's Parameters =
  KDF :: KDF
  MAC :: Mac
  Hash :: Hash
  MHF :: MHF
  NonceLen :: go_int
  OPRFPointLength :: go_int
  AkePointLength :: go_int
  Group :: byte
  OPRF :: "'s OPRF"
  Context :: bytes
  EnvelopeSize :: go_int

definition envelopeSize :: "'s extern \<Rightarrow> byte \<Rightarrow> 's Parameters \<Rightarrow> go_int" where
  "envelopeSize x mode p =
     (let innerSize = (if mode = External then ScalarLength x (Parameters.Group p) else 0)
      in Parameters.NonceLen p + Mac.Size (Parameters.MAC p) + innerSize)"

definition toInternal :: "'s extern \<Rightarrow> Configuration \<Rightarrow> 's Parameters" where
  "toInternal x c =
     (let g = Configuration.Group c;
          ip = \<lparr>Parameters.KDF = KDF_Get x (Configuration.KDF c),
                Parameters.MAC = MAC_Get x (Configuration.MAC c),
                Parameters.Hash = Hash_Get x (Configuration.Hash c),
                Parameters.MHF = MHF_Get x (Configuration.MHF c),
                Parameters.NonceLen = Configuration.NonceLen c,
                OPRFPointLength = PointLength x g,
                AkePointLength = PointLength x g,
                Parameters.Group = g,
                OPRF = Ciphersuite x g,
                Parameters.Context = Configuration.Context c,
                EnvelopeSize = 0\<rparr>
      in ip\<lparr>EnvelopeSize := envelopeSize x (Mode c) ip\<rparr>)"

definition DefaultConfiguration :: "'s extern \<Rightarrow> Configuration" where
  "DefaultConfiguration x =
     \<lparr>Configuration.Group = RistrettoSha512 x,
      Configuration.KDF = SHA512 x,
      Configuration.MAC = SHA512 x,
      Configuration.Hash = SHA512 x,
      Configuration.MHF = Scrypt x,
      Mode = Internal,
      Configuration.Context = [],
      Configuration.NonceLen = 32\<rparr>"

definition GetFakeEnvelope :: "'s extern \<Rightarrow> Configuration \<Rightarrow> bytes option" where
  "GetFakeEnvelope x c = (let l = EnvelopeSize (toInternal x c) in make_bytes l)"

section \<open>message/login.go and the credential messages\<close>

text \<open>
  Modelled from the spec: package \<open>internal/message\<close> is not among the sources.
  \<open>CredentialRequest\<close> is the blinded element, \<open>CredentialResponse\<close> is
  \<open>{evaluated-element, masking-nonce, masked-response}\<close> (the fields \<open>server.go\<close> fills),
  and each serializes to its fields in that order (sections 3 and 6).
\<close>

record CredentialRequest =
  Data :: bytes

record CredentialResponse =
  Data :: bytes
  MaskingNonce :: bytes
  MaskedResponse :: bytes

definition CredentialRequest_Serialize :: "CredentialRequest \<Rightarrow> bytes" where
  "CredentialRequest_Serialize c = CredentialRequest.Data c"

definition CredentialResponse_Serialize :: "CredentialResponse \<Rightarrow> bytes" where
  "CredentialResponse_Serialize c =
     Concat (CredentialResponse.Data c) (Concat (MaskingNonce c) (MaskedResponse c))"

text \<open>\<open>KE1\<close>, \<open>KE2\<close> and \<open>KE3\<close> of \<open>message/login.go\<close>, each with its embedded message.\<close>

record KE1 =
  CredentialRequest :: CredentialRequest
  NonceU :: bytes
  EpkU :: bytes

record KE2 =
  CredentialResponse :: CredentialResponse
  NonceS :: bytes
  EpkS :: bytes
  Mac :: bytes

record KE3 =
  Mac :: bytes

definition KE1_Serialize :: "KE1 \<Rightarrow> bytes" where
  "KE1_Serialize m = Concat3 (CredentialRequest_Serialize (CredentialRequest m)) (NonceU m) (EpkU m)"

definition KE2_Serialize :: "KE2 \<Rightarrow> bytes" where
  "KE2_Serialize m =
     Concat (CredentialResponse_Serialize (CredentialResponse m))
            (Concat3 (NonceS m) (EpkS m) (KE2.Mac m))"

definition KE3_Serialize :: "KE3 \<Rightarrow> bytes" where
  "KE3_Serialize k = KE3.Mac k"

section \<open>server.go\<close>

text \<open>
  Modelled from the spec: \<open>ake.Server\<close> (package \<open>internal/ake\<close>, file \<open>server.go\<close>) is not
  among the sources. Section 3: the server AKE state across \<open>Init\<close> and \<open>Finish\<close> is the
  expected client MAC and the session key, both empty in a new server. Section 4.5: on
  \<open>Finish(KE3)\<close> the server constant-time-compares the received client MAC to the expected
  one; the comparison is true exactly on equal byte strings.
\<close>

record ake_Server =
  clientMac :: bytes
  sessionSecret :: bytes

definition ake_NewServer :: ake_Server where
  "ake_NewServer = \<lparr>clientMac = [], sessionSecret = []\<rparr>"

definition ake_Finalize :: "'s Parameters \<Rightarrow> ake_Server \<Rightarrow> KE3 \<Rightarrow> bool" where
  "ake_Finalize p s ke3 = (clientMac s = KE3.Mac ke3)"

definition ake_ExpectedMAC :: "ake_Server \<Rightarrow> bytes" where
  "ake_ExpectedMAC s = clientMac s"

record 's Server =
  Parameters :: "'s Parameters"
  Ake :: ake_Server

text \<open>\<open>NewServer\<close> takes a pointer: \<open>None\<close> is \<open>nil\<close>.\<close>

definition NewServer :: "'s extern \<Rightarrow> Configuration option \<Rightarrow> 's Server" where
  "NewServer x p =
     (let p' = (case p of None \<Rightarrow> DefaultConfiguration x | Some c \<Rightarrow> c);
          ip = toInternal x p'
      in \<lparr>Parameters = ip, Ake = ake_NewServer\<rparr>)"

text \<open>\<open>Server.Finish\<close> returns a Go \<open>error\<close>: \<open>None\<close> is \<open>nil\<close>.\<close>

definition Finish :: "'s Server \<Rightarrow> KE3 \<Rightarrow> error option" where
  "Finish s ke3 =
     (if \<not> ake_Finalize (Parameters s) (Ake s) ke3 then Some ErrAkeInvalidClientMac else None)"

definition ExpectedMAC :: "'s Server \<Rightarrow> bytes" where
  "ExpectedMAC s = ake_ExpectedMAC (Ake s)"

text \<open>
  Package \<open>internal/tag\<close> is not among the sources; its constants are the fixed ASCII
  labels of the spec's section 6, the same strings \<open>ake/3dh.go\<close> declares.
\<close>

definition tag_LabelPrefix :: string where "tag_LabelPrefix = ''OPAQUE ''"
definition tag_Handshake :: string where "tag_Handshake = ''handshake secret''"
definition tag_Session :: string where "tag_Session = ''session secret''"
definition tag_MacServer :: string where "tag_MacServer = ''server mac''"
definition tag_MacClient :: string where "tag_MacClient = ''client mac''"
definition tag_OprfKey :: string where "tag_OprfKey = ''OprfKey''"
definition tag_DeriveKeyPair :: string where "tag_DeriveKeyPair = ''OPAQUE-DeriveKeyPair''"
definition tag_CredentialResponsePad :: string where
  "tag_CredentialResponsePad = ''CredentialResponsePad''"

text \<open>
  The random source is an input: \<open>RandomScalar\<close> is what \<open>NewScalar().Random()\<close> yields at
  this call, \<open>RandomBytes n\<close> what \<open>RandomBytes(n)\<close> yields.
\<close>

record 's rand =
  RandomScalar :: 's
  RandomBytes :: "go_int \<Rightarrow> bytes"

record RegistrationRequest =
  Data :: bytes

record RegistrationResponse =
  Data :: bytes
  Pks :: bytes

record RegistrationUpload =
  PublicKey :: bytes
  MaskingKey :: bytes
  Envelope :: bytes

text \<open>
  Modelled from the spec: \<open>Parameters.MaskResponse\<close> (package \<open>internal\<close>) is not among the
  sources. Section 4.4: \<open>mask = Expand(masking-key, masking-nonce \<parallel> "CredentialResponsePad",
  length(cleartext))\<close> and \<open>masked-response = cleartext XOR mask\<close>.
\<close>

definition Xor :: "bytes \<Rightarrow> bytes \<Rightarrow> bytes" where
  "Xor a b = map2 (XOR) a b"

definition MaskResponse :: "'s Parameters \<Rightarrow> bytes \<Rightarrow> bytes \<Rightarrow> bytes \<Rightarrow> bytes" where
  "MaskResponse p key nonce clear =
     (let mask = Expand (Parameters.KDF p) key (SuffixString nonce tag_CredentialResponsePad)
                   (len clear)
      in Xor clear mask)"

definition evaluate :: "'s Server \<Rightarrow> bytes \<Rightarrow> bytes \<Rightarrow> error + bytes" where
  "evaluate s seed blinded =
     (let ku = DeriveKey (OPRF (Parameters s)) seed (bytes_of tag_DeriveKeyPair)
      in Evaluate (OPRF (Parameters s)) ku blinded)"

definition oprfResponse ::
  "'s extern \<Rightarrow> 's Server \<Rightarrow> bytes \<Rightarrow> bytes \<Rightarrow> bytes \<Rightarrow> error + bytes" where
  "oprfResponse x s oprfSeed credentialIdentifier element =
     (let seed = Expand (Parameters.KDF (Parameters s)) oprfSeed
                   (SuffixString credentialIdentifier tag_OprfKey)
                   (ScalarLength x (Parameters.Group (Parameters s)))
      in evaluate s seed element)"

definition RegistrationResponse ::
  "'s extern \<Rightarrow> 's Server \<Rightarrow> RegistrationRequest \<Rightarrow> bytes \<Rightarrow> bytes \<Rightarrow> bytes
     \<Rightarrow> error + RegistrationResponse" where
  "RegistrationResponse x s req serverPublicKey credentialIdentifier oprfSeed =
     (case oprfResponse x s oprfSeed credentialIdentifier (RegistrationRequest.Data req) of
        Inl err \<Rightarrow> Inl (ErrRegistrationResponse err)
      | Inr z \<Rightarrow>
          Inr \<lparr>RegistrationResponse.Data = PadPoint x z (Parameters.Group (Parameters s)),
               Pks = serverPublicKey\<rparr>)"

definition credentialResponse ::
  "'s extern \<Rightarrow> 's rand \<Rightarrow> 's Server \<Rightarrow> CredentialRequest \<Rightarrow> bytes \<Rightarrow> RegistrationUpload
     \<Rightarrow> bytes \<Rightarrow> bytes \<Rightarrow> bytes \<Rightarrow> error + CredentialResponse" where
  "credentialResponse x r s req serverPublicKey record credentialIdentifier oprfSeed maskingNonce =
     (case oprfResponse x s oprfSeed credentialIdentifier (CredentialRequest.Data req) of
        Inl err \<Rightarrow> Inl (ErrOprfResponse err)
      | Inr z \<Rightarrow>
          (let maskingNonce' =
                 (if length maskingNonce = 0
                  then RandomBytes r (Parameters.NonceLen (Parameters s))
                  else maskingNonce);
               clear = Concat serverPublicKey (Envelope record);
               maskedResponse = MaskResponse (Parameters s) (MaskingKey record) maskingNonce' clear
           in Inr \<lparr>CredentialResponse.Data = PadPoint x z (Parameters.Group (Parameters s)),
                    MaskingNonce = maskingNonce',
                    MaskedResponse = maskedResponse\<rparr>))"

section \<open>internal/ake/3dh.go\<close>

text \<open>\<open>type selector bool\<close>, with \<open>client\<close> true and \<open>server\<close> false.\<close>

definition client :: bool where
  "client = True"

definition server :: bool where
  "server = False"


definition buildLabel :: "go_int \<Rightarrow> bytes \<Rightarrow> bytes \<Rightarrow> bytes option" where
  "buildLabel length' label context =
     do {
       l \<leftarrow> I2OSP length' 2;
       v \<leftarrow> EncodeVectorLen (bytes_of tag_LabelPrefix @ label) 1;
       c \<leftarrow> EncodeVectorLen context 1;
       Some (Concat3 l v c)
     }"

definition expand :: "KDF \<Rightarrow> bytes \<Rightarrow> bytes \<Rightarrow> bytes" where
  "expand h secret hkdfLabel = Expand h secret hkdfLabel (KDF.Size h)"

definition expandLabel :: "KDF \<Rightarrow> bytes \<Rightarrow> bytes \<Rightarrow> bytes \<Rightarrow> bytes option" where
  "expandLabel h secret label context =
     do {
       hkdfLabel \<leftarrow> buildLabel (KDF.Size h) label context;
       Some (expand h secret hkdfLabel)
     }"

definition deriveSecret :: "KDF \<Rightarrow> bytes \<Rightarrow> bytes \<Rightarrow> bytes \<Rightarrow> bytes option" where
  "deriveSecret h secret label context = expandLabel h secret label context"

record macKeys =
  serverMacKey :: bytes
  clientMacKey :: bytes

text \<open>\<open>deriveKeys\<close>: the \<open>nil\<close> salt and the \<open>nil\<close> context are empty byte strings.\<close>

definition deriveKeys :: "KDF \<Rightarrow> bytes \<Rightarrow> bytes \<Rightarrow> (macKeys \<times> bytes) option" where
  "deriveKeys h ikm context =
     do {
       let prk = Extract h [] ikm;
       handshakeSecret \<leftarrow> deriveSecret h prk (bytes_of tag_Handshake) context;
       sessionSecret \<leftarrow> deriveSecret h prk (bytes_of tag_Session) context;
       smk \<leftarrow> expandLabel h handshakeSecret (bytes_of tag_MacServer) [];
       cmk \<leftarrow> expandLabel h handshakeSecret (bytes_of tag_MacClient) [];
       Some (\<lparr>serverMacKey = smk, clientMacKey = cmk\<rparr>, sessionSecret)
     }"

definition decodeKeys :: "('s, 'e) group \<Rightarrow> bytes \<Rightarrow> bytes \<Rightarrow> error + ('e \<times> 'e)" where
  "decodeKeys g peerEpk peerPk =
     (case Decode g peerEpk of
        None \<Rightarrow> Inl ErrDecodingPeerEphemeralPublicKey
      | Some epk \<Rightarrow>
          (case Decode g peerPk of
             None \<Rightarrow> Inl ErrDecodingPeerPublicKey
           | Some pk \<Rightarrow> Inr (epk, pk)))"

definition k3dh :: "('s, 'e) group \<Rightarrow> 'e \<Rightarrow> 's \<Rightarrow> 'e \<Rightarrow> 's \<Rightarrow> 'e \<Rightarrow> 's \<Rightarrow> bytes" where
  "k3dh g p1 s1 p2 s2 p3 s3 =
     (let e1 = Mult g p1 s1;
          e2 = Mult g p2 s2;
          e3 = Mult g p3 s3
      in Concat3 (Bytes g e1) (Bytes g e2) (Bytes g e3))"

definition ikm ::
  "bool \<Rightarrow> ('s, 'e) group \<Rightarrow> 's \<Rightarrow> 's \<Rightarrow> bytes \<Rightarrow> bytes \<Rightarrow> error + bytes" where
  "ikm s g esk secretKey peerEpk peerPublicKey =
     (case decodeKeys g peerEpk peerPublicKey of
        Inl err \<Rightarrow> Inl err
      | Inr (epk, gpk) \<Rightarrow>
          (if s = client then Inr (k3dh g epk esk gpk esk epk secretKey)
           else Inr (k3dh g epk esk epk secretKey gpk esk)))"

section \<open>ake/3dh.go\<close>

record Keys =
  ServerMacKey :: bytes
  ClientMacKey :: bytes
  HandshakeSecret :: bytes
  HandshakeEncryptKey :: bytes
  SessionSecret :: bytes

text \<open>
  \<open>Ake\<close> embeds the group and the hash identifier. \<open>Esk\<close>, \<open>Epk\<close> and \<open>Keys\<close> are \<open>nil\<close>
  until set.
\<close>

record ('s, 'e) Ake =
  Group :: "('s, 'e) group"
  Hashing :: go_uint
  SessionSecret :: bytes
  Esk :: "'s option"
  Epk :: "'e option"
  Keys :: "Keys option"


section \<open>The key schedule as the specification writes it\<close>

text \<open>
  Section 4.5 of the spec, in its own words, with the size written into the label left
  open: \<open>label(x) = I2OSP(n, 2) \<parallel> EncodeVector("OPAQUE " \<parallel> x, 1) \<parallel>
  EncodeVector(context, 1)\<close>; \<open>prk = Extract(salt = \<emptyset>, IKM)\<close>; the handshake and the
  session secret are expanded from \<open>prk\<close> under their labels with the preamble as context,
  the two MAC keys from the handshake secret with the empty context. Every expansion
  yields as many bytes as the KDF's output size.
\<close>

definition spec_label :: "go_int \<Rightarrow> string \<Rightarrow> bytes \<Rightarrow> bytes option" where
  "spec_label n x context =
     do {
       a \<leftarrow> I2OSP n 2;
       b \<leftarrow> EncodeVectorLen (bytes_of ''OPAQUE '' @ bytes_of x) 1;
       c \<leftarrow> EncodeVectorLen context 1;
       Some (a @ b @ c)
     }"

definition spec_key_schedule ::
  "KDF \<Rightarrow> go_int \<Rightarrow> bytes \<Rightarrow> bytes \<Rightarrow> (macKeys \<times> bytes) option" where
  "spec_key_schedule h n ikm' preamble =
     do {
       let prk = Extract h [] ikm';
       l1 \<leftarrow> spec_label n ''handshake secret'' preamble;
       let handshake_secret = Expand h prk l1 (KDF.Size h);
       l2 \<leftarrow> spec_label n ''session secret'' preamble;
       let session_secret = Expand h prk l2 (KDF.Size h);
       l3 \<leftarrow> spec_label n ''server mac'' [];
       l4 \<leftarrow> spec_label n ''client mac'' [];
       Some (\<lparr>serverMacKey = Expand h handshake_secret l3 (KDF.Size h),
              clientMacKey = Expand h handshake_secret l4 (KDF.Size h)\<rparr>,
             session_secret)
     }"

section \<open>A small instance of the external packages\<close>

text \<open>
  Concrete stand-ins for the external primitives, to evaluate the model at explicit
  inputs. The group is the integers modulo 11 under addition with generator 1, a scalar
  acting by multiplication; an element is encoded in one byte. The KDF, MAC and hash
  stand-ins only carry an output size: 32 bytes for the identifier 5 (SHA-256 in Go's
  \<open>crypto\<close>) and 64 bytes otherwise (SHA-512 is 7).
\<close>

definition ex_group :: "(nat, nat) group" where
  "ex_group =
     \<lparr>Base = 1,
      Mult = (\<lambda>e s. (e * s) mod 11),
      Bytes = (\<lambda>e. [of_nat e]),
      Decode = (\<lambda>b. case b of
                        [] \<Rightarrow> None
                      | v # vs \<Rightarrow> (if vs = [] \<and> unat v < 11 then Some (unat v) else None))\<rparr>"

definition ex_KDF :: "go_int \<Rightarrow> KDF" where
  "ex_KDF n =
     \<lparr>Extract = (\<lambda>salt ikm'. salt @ ikm'),
      Expand = (\<lambda>secret info l. take (unat l) (info @ secret)),
      KDF.Size = n\<rparr>"

definition ex_Mac :: "go_int \<Rightarrow> Mac" where
  "ex_Mac n = \<lparr>Mac.MAC = (\<lambda>key msg. key @ msg), Mac.Size = n\<rparr>"

definition ex_Hash :: "go_int \<Rightarrow> Hash" where
  "ex_Hash n = \<lparr>Hash.Sum = (\<lambda>b. b), Hash.Size = n\<rparr>"

definition ex_MHF :: MHF where
  "ex_MHF = \<lparr>Harden = (\<lambda>password salt l. password)\<rparr>"

definition ex_OPRF :: "nat OPRF" where
  "ex_OPRF =
     \<lparr>DeriveKey = (\<lambda>seed info. sum_list (map unat (seed @ info)) mod 11),
      Evaluate = (\<lambda>k blinded. case Decode ex_group blinded of
                                 None \<Rightarrow> Inl ErrOprfEvaluation
                               | Some e \<Rightarrow> Inr (Bytes ex_group (Mult ex_group e k)))\<rparr>"

definition ex_size :: "go_uint \<Rightarrow> go_int" where
  "ex_size h = (if h = 5 then 32 else 64)"

definition ex_extern :: "nat extern" where
  "ex_extern =
     \<lparr>RistrettoSha512 = 1,
      SHA512 = 7,
      Scrypt = 2,
      KDF_Get = (\<lambda>h. ex_KDF (ex_size h)),
      MAC_Get = (\<lambda>h. ex_Mac (ex_size h)),
      Hash_Get = (\<lambda>h. ex_Hash (ex_size h)),
      MHF_Get = (\<lambda>m. ex_MHF),
      PointLength = (\<lambda>g. 32),
      ScalarLength = (\<lambda>g. 32),
      Ciphersuite = (\<lambda>g. ex_OPRF)\<rparr>"



section \<open>Facts about bytes and integers\<close>

lemma uint_byte_lt: "uint (b::byte) < 256"
  using uint_bounded [of b] by simp

lemma sint_ucast_byte: "sint (ucast (b::byte) :: go_int) = uint b"
proof -
  have "uint b < 2 ^ 63" using uint_byte_lt [of b] by simp
  moreover have "- (2 ^ 63) \<le> uint b"
    by (rule order_trans [of _ 0]) simp_all
  ultimately have "signed_take_bit 63 (uint b) = uint b"
    by (simp add: signed_take_bit_int_eq_self)
  then show ?thesis by (simp add: signed_ucast_eq)
qed

lemma ucast_ucast_byte: "(ucast (ucast (b::byte) :: go_int) :: byte) = b"
  by (simp add: ucast_up_ucast_id is_up)

lemma I2OSP_OS2IP_byte: "I2OSP (OS2IP [b]) (Suc 0) = Some [b]"
proof -
  have "unat b < 256" using unsigned_less [of b, where 'a = nat] by simp
  then have "(of_nat (unat b mod 256) :: byte) = b" by simp
  then show ?thesis
    using uint_byte_lt [of b] by (simp add: I2OSP_def OS2IP_def sint_ucast_byte)
qed

lemma list7: "length b = 7 \<Longrightarrow> b = [b ! 0, b ! 1, b ! 2, b ! 3, b ! 4, b ! 5, b ! 6]"
  by (auto simp: length_Suc_conv numeral_eq_Suc)

lemma drop6: "length b = 7 \<Longrightarrow> drop 6 b = [b ! 6]"
  by (auto simp: length_Suc_conv numeral_eq_Suc)

lemma flip_bit_neq:
  assumes "k < 8"
  shows "(b::byte) XOR push_bit k 1 \<noteq> b"
proof
  assume "b XOR push_bit k 1 = b"
  then have "bit (b XOR push_bit k 1) k = bit b k" by simp
  then show False using assms by (auto simp add: bit_simps)
qed

lemma list_update_neq: "i < length m \<Longrightarrow> v \<noteq> m ! i \<Longrightarrow> m[i := v] \<noteq> m"
  by (metis nth_list_update_eq)

lemma len_replicate_sint:
  assumes "0 \<le> sint (w::go_int)"
  shows "len (replicate (nat (sint w)) (0::byte)) = w"
proof -
  have "(of_nat (nat (sint w)) :: go_int) = of_int (sint w)"
    using assms by simp
  then show ?thesis by (simp add: len_def)
qed

lemma sint_add_small:
  assumes "- (2 ^ 62) \<le> sint a" and "sint a < 2 ^ 62"
    and "- (2 ^ 62) \<le> sint b" and "sint b < 2 ^ 62"
  shows "sint (a + b :: go_int) = sint a + sint b"
proof -
  have "- (2 ^ 63) \<le> sint a + sint b" and "sint a + sint b < 2 ^ 63"
    using assms by simp_all
  then have "signed_take_bit 63 (sint a + sint b) = sint a + sint b"
    by (simp add: signed_take_bit_int_eq_self)
  then show ?thesis by (simp add: sint_word_ariths)
qed

lemma envelopeSize_sint:
  assumes "16 \<le> sint (Parameters.NonceLen p)" and "sint (Parameters.NonceLen p) \<le> 255"
    and "0 \<le> sint (Mac.Size (Parameters.MAC p))"
    and "sint (Mac.Size (Parameters.MAC p)) < 65536"
    and "0 \<le> sint (ScalarLength x (Parameters.Group p))"
    and "sint (ScalarLength x (Parameters.Group p)) < 65536"
  shows "16 \<le> sint (envelopeSize x mode p) \<and> sint (envelopeSize x mode p) < 2 ^ 18"
proof -
  let ?n = "Parameters.NonceLen p" and ?m = "Mac.Size (Parameters.MAC p)"
  let ?i = "if mode = External then ScalarLength x (Parameters.Group p) else 0"
  have nm: "sint (?n + ?m) = sint ?n + sint ?m"
    using assms by (intro sint_add_small) simp_all
  have i: "0 \<le> sint ?i" "sint ?i < 65536"
    using assms by simp_all
  have "sint (?n + ?m + ?i) = sint (?n + ?m) + sint ?i"
    using assms i nm by (intro sint_add_small) simp_all
  then have "sint (envelopeSize x mode p) = sint ?n + sint ?m + sint ?i"
    using nm by (simp add: envelopeSize_def Let_def)
  then show ?thesis using assms i by simp
qed

lemma be_bytes_2: "be_bytes 2 n = [of_nat (n div 256 mod 256), of_nat (n mod 256)]"
  by (simp add: numeral_2_eq_2)

lemma buildLabel_spec_label: "buildLabel n (bytes_of x) context = spec_label n x context"
  by (simp add: buildLabel_def spec_label_def tag_LabelPrefix_def Concat3_def)

lemma ex_group_commutes:
  "\<forall>a b. Mult ex_group (Mult ex_group (Base ex_group) a) b =
         Mult ex_group (Mult ex_group (Base ex_group) b) a"
  by (simp add: ex_group_def mod_mult_right_eq mult.commute)

section \<open>Claims\<close>

text \<open>
  C3. For every byte string \<open>b\<close> of length exactly 7, \<open>DeserializeConfiguration b\<close> succeeds,
  and serializing the returned configuration yields \<open>b\<close> again.
\<close>

theorem C3_deserialize_serialize:
  assumes "length b = 7"
  shows "\<exists>c. DeserializeConfiguration b = Inr c \<and> Serialize c = Some b"
proof -
  let ?c = "\<lparr>Configuration.Group = b ! 0, Configuration.KDF = ucast (b ! 1),
             Configuration.MAC = ucast (b ! 2), Configuration.Hash = ucast (b ! 3),
             Configuration.MHF = b ! 4, Mode = b ! 5, Configuration.Context = [],
             Configuration.NonceLen = OS2IP (drop 6 b)\<rparr>"
  have d: "DeserializeConfiguration b = Inr ?c"
    using assms by (simp add: DeserializeConfiguration_def confLength_def)
  have "Serialize ?c = Some [b ! 0, b ! 1, b ! 2, b ! 3, b ! 4, b ! 5, b ! 6]"
    using assms by (simp add: Serialize_def drop6 I2OSP_OS2IP_byte ucast_ucast_byte)
  then have "Serialize ?c = Some b"
    using list7 [OF assms] by simp
  with d show ?thesis by blast
qed

theorem C3_witness:
  "length [1, 7, 7, 7, 2, 1, 32 :: byte] = 7 \<and>
   (\<exists>c. DeserializeConfiguration [1, 7, 7, 7, 2, 1, 32] = Inr c \<and>
        Serialize c = Some [1, 7, 7, 7, 2, 1, 32])"
  using C3_deserialize_serialize [of "[1, 7, 7, 7, 2, 1, 32]"] by simp

text \<open>
  C5. The derived \<open>EnvelopeSize\<close> is \<open>NonceLen + MAC-size\<close> in the internal mode and
  \<open>NonceLen + MAC-size + scalar-length\<close> in the external mode (in Go's \<open>int\<close> arithmetic),
  and configurations that agree on the group, the MAC, the mode and the nonce length have
  the same \<open>EnvelopeSize\<close>, whatever their other fields are.
\<close>

theorem C5_envelope_size:
  "(Mode c = Internal \<longrightarrow>
      EnvelopeSize (toInternal x c) =
        Configuration.NonceLen c + Mac.Size (MAC_Get x (Configuration.MAC c))) \<and>
   (Mode c = External \<longrightarrow>
      EnvelopeSize (toInternal x c) =
        Configuration.NonceLen c + Mac.Size (MAC_Get x (Configuration.MAC c)) +
        ScalarLength x (Configuration.Group c)) \<and>
   (Configuration.Group c' = Configuration.Group c \<and>
    Configuration.MAC c' = Configuration.MAC c \<and>
    Mode c' = Mode c \<and>
    Configuration.NonceLen c' = Configuration.NonceLen c \<longrightarrow>
      EnvelopeSize (toInternal x c') = EnvelopeSize (toInternal x c))"
  by (simp add: toInternal_def envelopeSize_def Internal_def External_def Let_def)

theorem C5_witness:
  "Mode (DefaultConfiguration ex_extern) = Internal \<and>
   EnvelopeSize (toInternal ex_extern (DefaultConfiguration ex_extern)) = 32 + 64 \<and>
   Mode ((DefaultConfiguration ex_extern)\<lparr>Mode := External\<rparr>) = External \<and>
   EnvelopeSize (toInternal ex_extern ((DefaultConfiguration ex_extern)\<lparr>Mode := External\<rparr>)) =
     32 + 64 + 32 \<and>
   EnvelopeSize (toInternal ex_extern
       ((DefaultConfiguration ex_extern)\<lparr>Configuration.KDF := 5, Configuration.Context := [1]\<rparr>)) =
     EnvelopeSize (toInternal ex_extern (DefaultConfiguration ex_extern))"
  using C5_envelope_size [of "DefaultConfiguration ex_extern" ex_extern
      "(DefaultConfiguration ex_extern)\<lparr>Configuration.KDF := 5, Configuration.Context := [1]\<rparr>"]
    C5_envelope_size [of "(DefaultConfiguration ex_extern)\<lparr>Mode := External\<rparr>" ex_extern
      "(DefaultConfiguration ex_extern)\<lparr>Mode := External\<rparr>"]
  by (simp add: DefaultConfiguration_def ex_extern_def ex_Mac_def ex_size_def)

text \<open>
  C7. \<open>KE2.Serialize\<close> is \<open>Serialize(CredentialResponse)\<close> followed by the server nonce, the
  server ephemeral public key and the server MAC, that is evaluated-element, masking-nonce,
  masked-response, server-nonce, server-ephemeral-pubkey, server-mac, and nothing else.
\<close>

theorem C7_KE2_layout:
  "KE2_Serialize m =
     CredentialResponse_Serialize (CredentialResponse m) @ NonceS m @ EpkS m @ KE2.Mac m \<and>
   KE2_Serialize m =
     CredentialResponse.Data (CredentialResponse m) @ MaskingNonce (CredentialResponse m) @
     MaskedResponse (CredentialResponse m) @ NonceS m @ EpkS m @ KE2.Mac m"
  by (simp add: KE2_Serialize_def CredentialResponse_Serialize_def Concat_def Concat3_def)

text \<open>
  C10. \<open>NewServer(nil)\<close> returns a server, the one \<open>NewServer\<close> builds from
  \<open>DefaultConfiguration\<close>: its parameters are those \<open>toInternal\<close> derives from the
  Ristretto255/SHA-512 group, SHA-512 as KDF, MAC and hash, Scrypt, the internal mode and
  a nonce length of 32.
\<close>

theorem C10_NewServer_nil:
  "NewServer x None = NewServer x (Some (DefaultConfiguration x)) \<and>
   Parameters (NewServer x None) = toInternal x (DefaultConfiguration x) \<and>
   Ake (NewServer x None) = ake_NewServer \<and>
   Parameters.Group (Parameters (NewServer x None)) = RistrettoSha512 x \<and>
   OPRF (Parameters (NewServer x None)) = Ciphersuite x (RistrettoSha512 x) \<and>
   Parameters.KDF (Parameters (NewServer x None)) = KDF_Get x (SHA512 x) \<and>
   Parameters.MAC (Parameters (NewServer x None)) = MAC_Get x (SHA512 x) \<and>
   Parameters.Hash (Parameters (NewServer x None)) = Hash_Get x (SHA512 x) \<and>
   Parameters.MHF (Parameters (NewServer x None)) = MHF_Get x (Scrypt x) \<and>
   Mode (DefaultConfiguration x) = Internal \<and>
   Parameters.NonceLen (Parameters (NewServer x None)) = 32 \<and>
   EnvelopeSize (Parameters (NewServer x None)) = 32 + Mac.Size (MAC_Get x (SHA512 x))"
  by (simp add: NewServer_def toInternal_def DefaultConfiguration_def envelopeSize_def
      Internal_def External_def Let_def)

text \<open>
  C2. \<open>Server.Finish\<close> returns \<open>nil\<close> exactly when the MAC of \<open>ke3\<close> equals the expected
  client MAC the server holds, and the invalid-client-mac error otherwise; in particular
  when one bit of the expected MAC is flipped.
\<close>

theorem C2_Finish_checks_mac:
  "Finish s ke3 =
     (if KE3.Mac ke3 = ExpectedMAC s then None else Some ErrAkeInvalidClientMac) \<and>
   (i < length (ExpectedMAC s) \<and> k < 8 \<longrightarrow>
      Finish s \<lparr>KE3.Mac = (ExpectedMAC s)[i := ExpectedMAC s ! i XOR push_bit k 1]\<rparr> =
        Some ErrAkeInvalidClientMac)"
proof -
  have "(ExpectedMAC s)[i := ExpectedMAC s ! i XOR push_bit k 1] \<noteq> ExpectedMAC s"
    if "i < length (ExpectedMAC s)" and "k < 8"
    using that flip_bit_neq [of k "ExpectedMAC s ! i"]
      list_update_neq [of i "ExpectedMAC s" "ExpectedMAC s ! i XOR push_bit k 1"]
    by blast
  then show ?thesis
    by (auto simp: Finish_def ake_Finalize_def ExpectedMAC_def ake_ExpectedMAC_def)
qed

theorem C2_witness:
  "Finish \<lparr>Parameters = toInternal ex_extern (DefaultConfiguration ex_extern),
           Ake = \<lparr>clientMac = [1, 2], sessionSecret = [3]\<rparr>\<rparr> \<lparr>KE3.Mac = [1, 2]\<rparr> = None \<and>
   (0::nat) < length [1, 2 :: byte] \<and> (0::nat) < 8 \<and>
   Finish \<lparr>Parameters = toInternal ex_extern (DefaultConfiguration ex_extern),
           Ake = \<lparr>clientMac = [1, 2], sessionSecret = [3]\<rparr>\<rparr> \<lparr>KE3.Mac = [0, 2]\<rparr> =
     Some ErrAkeInvalidClientMac"
  using C2_Finish_checks_mac [of
      "\<lparr>Parameters = toInternal ex_extern (DefaultConfiguration ex_extern),
        Ake = \<lparr>clientMac = [1, 2], sessionSecret = [3]\<rparr>\<rparr>" "\<lparr>KE3.Mac = [1, 2]\<rparr>" 0 0]
  by (simp add: ExpectedMAC_def ake_ExpectedMAC_def)

text \<open>
  C8. For every configuration within the invariant of the spec's data model, a nonce
  length of at least 16 that fits the byte it has on the wire, where the MAC size and the
  scalar length the external packages report are byte counts that fit in two bytes,
  \<open>GetFakeEnvelope\<close> returns a byte string whose length is the \<open>EnvelopeSize\<close> derived from
  the configuration, in its mode, and in which every byte is zero.
\<close>

theorem C8_fake_envelope:
  assumes "16 \<le> sint (Configuration.NonceLen c)"
    and "sint (Configuration.NonceLen c) \<le> 255"
    and "0 \<le> sint (Mac.Size (MAC_Get x (Configuration.MAC c)))"
    and "sint (Mac.Size (MAC_Get x (Configuration.MAC c))) < 65536"
    and "0 \<le> sint (ScalarLength x (Configuration.Group c))"
    and "sint (ScalarLength x (Configuration.Group c)) < 65536"
  shows "\<exists>e. GetFakeEnvelope x c = Some e \<and>
             len e = EnvelopeSize (toInternal x c) \<and>
             int (length e) = sint (EnvelopeSize (toInternal x c)) \<and>
             e = replicate (length e) 0"
proof -
  let ?ip = "\<lparr>Parameters.KDF = KDF_Get x (Configuration.KDF c),
              Parameters.MAC = MAC_Get x (Configuration.MAC c),
              Parameters.Hash = Hash_Get x (Configuration.Hash c),
              Parameters.MHF = MHF_Get x (Configuration.MHF c),
              Parameters.NonceLen = Configuration.NonceLen c,
              OPRFPointLength = PointLength x (Configuration.Group c),
              AkePointLength = PointLength x (Configuration.Group c),
              Parameters.Group = Configuration.Group c,
              OPRF = Ciphersuite x (Configuration.Group c),
              Parameters.Context = Configuration.Context c,
              EnvelopeSize = 0\<rparr>"
  have e: "EnvelopeSize (toInternal x c) = envelopeSize x (Mode c) ?ip"
    by (simp add: toInternal_def Let_def)
  have "16 \<le> sint (envelopeSize x (Mode c) ?ip) \<and> sint (envelopeSize x (Mode c) ?ip) < 2 ^ 18"
    using assms by (intro envelopeSize_sint) simp_all
  then have r: "0 \<le> sint (EnvelopeSize (toInternal x c))"
    and "\<not> maxAlloc < sint (EnvelopeSize (toInternal x c))"
    by (simp_all add: e maxAlloc_def)
  then show ?thesis
    by (simp add: GetFakeEnvelope_def make_bytes_def len_replicate_sint)
qed

theorem C8_witness:
  "16 \<le> sint (Configuration.NonceLen (DefaultConfiguration ex_extern)) \<and>
   sint (Configuration.NonceLen (DefaultConfiguration ex_extern)) \<le> 255 \<and>
   0 \<le> sint (Mac.Size (MAC_Get ex_extern (Configuration.MAC (DefaultConfiguration ex_extern)))) \<and>
   sint (Mac.Size (MAC_Get ex_extern (Configuration.MAC (DefaultConfiguration ex_extern)))) < 65536 \<and>
   0 \<le> sint (ScalarLength ex_extern (Configuration.Group (DefaultConfiguration ex_extern))) \<and>
   sint (ScalarLength ex_extern (Configuration.Group (DefaultConfiguration ex_extern))) < 65536 \<and>
   (\<exists>e. GetFakeEnvelope ex_extern (DefaultConfiguration ex_extern) = Some e \<and>
        len e = EnvelopeSize (toInternal ex_extern (DefaultConfiguration ex_extern)) \<and>
        int (length e) = 96 \<and>
        e = replicate (length e) 0)"
proof -
  have h: "16 \<le> sint (Configuration.NonceLen (DefaultConfiguration ex_extern))"
    "sint (Configuration.NonceLen (DefaultConfiguration ex_extern)) \<le> 255"
    "0 \<le> sint (Mac.Size (MAC_Get ex_extern (Configuration.MAC (DefaultConfiguration ex_extern))))"
    "sint (Mac.Size (MAC_Get ex_extern (Configuration.MAC (DefaultConfiguration ex_extern)))) < 65536"
    "0 \<le> sint (ScalarLength ex_extern (Configuration.Group (DefaultConfiguration ex_extern)))"
    "sint (ScalarLength ex_extern (Configuration.Group (DefaultConfiguration ex_extern))) < 65536"
    by (simp_all add: DefaultConfiguration_def ex_extern_def ex_Mac_def ex_size_def)
  have e: "EnvelopeSize (toInternal ex_extern (DefaultConfiguration ex_extern)) = 96"
    by (simp add: toInternal_def envelopeSize_def DefaultConfiguration_def ex_extern_def
        ex_Mac_def ex_size_def Internal_def External_def Let_def)
  have "\<exists>e. GetFakeEnvelope ex_extern (DefaultConfiguration ex_extern) = Some e \<and>
          len e = EnvelopeSize (toInternal ex_extern (DefaultConfiguration ex_extern)) \<and>
          int (length e) = 96 \<and>
          e = replicate (length e) 0"
    using C8_fake_envelope [OF h] by (simp add: e)
  with h show ?thesis by blast
qed

text \<open>
  C1. With the four public keys decoding to \<open>base \<times> esk_c\<close>, \<open>base \<times> esk_s\<close>,
  \<open>base \<times> sk_c\<close> and \<open>base \<times> sk_s\<close>, in a group whose scalar multiplication commutes, the
  client's \<open>ikm\<close> (own scalars \<open>esk_c\<close>, \<open>sk_c\<close>, peer keys \<open>epk_s\<close>, \<open>pk_s\<close>) and the
  server's \<open>ikm\<close> (own scalars \<open>esk_s\<close>, \<open>sk_s\<close>, peer keys \<open>epk_c\<close>, \<open>pk_c\<close>) both succeed
  with the same bytes.
\<close>

theorem C1_ikm_agree:
  assumes comm: "\<forall>a b. Mult g (Mult g (Base g) a) b = Mult g (Mult g (Base g) b) a"
    and epk_c: "Decode g epk_c = Some (Mult g (Base g) esk_c)"
    and epk_s: "Decode g epk_s = Some (Mult g (Base g) esk_s)"
    and pk_c: "Decode g pk_c = Some (Mult g (Base g) sk_c)"
    and pk_s: "Decode g pk_s = Some (Mult g (Base g) sk_s)"
  shows "ikm client g esk_c sk_c epk_s pk_s = ikm server g esk_s sk_s epk_c pk_c \<and>
         ikm client g esk_c sk_c epk_s pk_s =
           Inr (Bytes g (Mult g (Mult g (Base g) esk_s) esk_c) @
                Bytes g (Mult g (Mult g (Base g) sk_s) esk_c) @
                Bytes g (Mult g (Mult g (Base g) esk_s) sk_c))"
proof -
  have c: "ikm client g esk_c sk_c epk_s pk_s =
             Inr (Bytes g (Mult g (Mult g (Base g) esk_s) esk_c) @
                  Bytes g (Mult g (Mult g (Base g) sk_s) esk_c) @
                  Bytes g (Mult g (Mult g (Base g) esk_s) sk_c))"
    by (simp add: ikm_def decodeKeys_def k3dh_def Concat3_def client_def epk_s pk_s)
  have s: "ikm server g esk_s sk_s epk_c pk_c =
             Inr (Bytes g (Mult g (Mult g (Base g) esk_c) esk_s) @
                  Bytes g (Mult g (Mult g (Base g) esk_c) sk_s) @
                  Bytes g (Mult g (Mult g (Base g) sk_c) esk_s))"
    by (simp add: ikm_def decodeKeys_def k3dh_def Concat3_def client_def server_def epk_c pk_c)
  have "Mult g (Mult g (Base g) esk_c) esk_s = Mult g (Mult g (Base g) esk_s) esk_c"
    and "Mult g (Mult g (Base g) esk_c) sk_s = Mult g (Mult g (Base g) sk_s) esk_c"
    and "Mult g (Mult g (Base g) sk_c) esk_s = Mult g (Mult g (Base g) esk_s) sk_c"
    using comm by blast+
  with c s show ?thesis by simp
qed

theorem C1_witness:
  "(\<forall>a b. Mult ex_group (Mult ex_group (Base ex_group) a) b =
          Mult ex_group (Mult ex_group (Base ex_group) b) a) \<and>
   Decode ex_group [2] = Some (Mult ex_group (Base ex_group) 2) \<and>
   Decode ex_group [5] = Some (Mult ex_group (Base ex_group) 5) \<and>
   Decode ex_group [3] = Some (Mult ex_group (Base ex_group) 3) \<and>
   Decode ex_group [7] = Some (Mult ex_group (Base ex_group) 7) \<and>
   ikm client ex_group 2 3 [5] [7] = ikm server ex_group 5 7 [2] [3] \<and>
   ikm client ex_group 2 3 [5] [7] = Inr [10, 3, 4]"
proof -
  have d2: "Decode ex_group [2] = Some (Mult ex_group (Base ex_group) 2)"
    and d5: "Decode ex_group [5] = Some (Mult ex_group (Base ex_group) 5)"
    and d3: "Decode ex_group [3] = Some (Mult ex_group (Base ex_group) 3)"
    and d7: "Decode ex_group [7] = Some (Mult ex_group (Base ex_group) 7)"
    by (simp_all add: ex_group_def)
  have v: "Bytes ex_group (Mult ex_group (Mult ex_group (Base ex_group) 5) 2) @
           Bytes ex_group (Mult ex_group (Mult ex_group (Base ex_group) 7) 2) @
           Bytes ex_group (Mult ex_group (Mult ex_group (Base ex_group) 5) 3) = [10, 3, 4]"
    by (simp add: ex_group_def)
  note r = C1_ikm_agree [OF ex_group_commutes d2 d5 d3 d7]
  have a: "ikm client ex_group 2 3 [5] [7] = ikm server ex_group 5 7 [2] [3]"
    using r by (rule conjunct1)
  have b: "ikm client ex_group 2 3 [5] [7] = Inr [10, 3, 4]"
    using conjunct2 [OF r] by (simp only: v)
  from ex_group_commutes d2 d5 d3 d7 a b show ?thesis by blast
qed

text \<open>
  C6, as amended. \<open>deriveKeys\<close> computes the key schedule of the spec, with the KDF's
  output size in the first field of every label: \<open>label(x) = I2OSP(KDF-size, 2) \<parallel>
  EncodeVector("OPAQUE " \<parallel> x, 1) \<parallel> EncodeVector(context, 1)\<close>, for every ikm and preamble.
\<close>

theorem C6_key_schedule:
  "deriveKeys h ikm' preamble = spec_key_schedule h (KDF.Size h) ikm' preamble"
proof -
  have l: "buildLabel (KDF.Size h) (bytes_of tag_Handshake) c =
             spec_label (KDF.Size h) ''handshake secret'' c"
    "buildLabel (KDF.Size h) (bytes_of tag_Session) c =
             spec_label (KDF.Size h) ''session secret'' c"
    "buildLabel (KDF.Size h) (bytes_of tag_MacServer) c =
             spec_label (KDF.Size h) ''server mac'' c"
    "buildLabel (KDF.Size h) (bytes_of tag_MacClient) c =
             spec_label (KDF.Size h) ''client mac'' c" for c
    by (simp_all only: buildLabel_spec_label tag_Handshake_def tag_Session_def
        tag_MacServer_def tag_MacClient_def)
  show ?thesis
    by (simp only: deriveKeys_def spec_key_schedule_def deriveSecret_def expandLabel_def
        expand_def l Let_def Option.bind_assoc Option.bind.bind_lunit)
qed

text \<open>
  C6 as stated fails where the KDF and the hash differ: with SHA-256 as KDF and SHA-512
  as hash, the labels of \<open>deriveKeys\<close> start with \<open>I2OSP(32, 2)\<close>, not with the hash size 64.
\<close>

theorem C6_counterexample:
  "buildLabel
     (KDF.Size (Parameters.KDF (toInternal ex_extern
        ((DefaultConfiguration ex_extern)\<lparr>Configuration.KDF := 5\<rparr>))))
     (bytes_of tag_Handshake) [2] \<noteq>
   spec_label
     (Hash.Size (Parameters.Hash (toInternal ex_extern
        ((DefaultConfiguration ex_extern)\<lparr>Configuration.KDF := 5\<rparr>))))
     ''handshake secret'' [2] \<and>
   deriveKeys
     (Parameters.KDF (toInternal ex_extern
        ((DefaultConfiguration ex_extern)\<lparr>Configuration.KDF := 5\<rparr>))) [1] [2] \<noteq>
   spec_key_schedule
     (Parameters.KDF (toInternal ex_extern
        ((DefaultConfiguration ex_extern)\<lparr>Configuration.KDF := 5\<rparr>)))
     (Hash.Size (Parameters.Hash (toInternal ex_extern
        ((DefaultConfiguration ex_extern)\<lparr>Configuration.KDF := 5\<rparr>)))) [1] [2]"
proof -
  let ?p = "toInternal ex_extern ((DefaultConfiguration ex_extern)\<lparr>Configuration.KDF := 5\<rparr>)"
  have k: "Parameters.KDF ?p = ex_KDF 32"
    by (simp add: toInternal_def DefaultConfiguration_def ex_extern_def ex_size_def Let_def)
  have h: "Hash.Size (Parameters.Hash ?p) = 64"
    by (simp add: toInternal_def DefaultConfiguration_def ex_extern_def ex_size_def
        ex_Hash_def Let_def)
  have n: "KDF.Size (ex_KDF 32) = 32"
    by (simp add: ex_KDF_def)
  have l: "buildLabel 32 (bytes_of tag_Handshake) [2] \<noteq> spec_label 64 ''handshake secret'' [2]"
    by (simp add: buildLabel_def tag_LabelPrefix_def Concat3_def tag_Handshake_def
        spec_label_def EncodeVectorLen_def len_def I2OSP_def be_bytes_2 bytes_of_def)
  have d: "deriveKeys (ex_KDF 32) [1] [2] \<noteq> spec_key_schedule (ex_KDF 32) 64 [1] [2]"
    by (simp add: deriveKeys_def deriveSecret_def expandLabel_def expand_def
        buildLabel_def tag_LabelPrefix_def Concat3_def tag_Handshake_def tag_Session_def
        tag_MacServer_def
        tag_MacClient_def spec_key_schedule_def spec_label_def ex_KDF_def
        EncodeVectorLen_def len_def I2OSP_def be_bytes_2 bytes_of_def Let_def)
  from l d show ?thesis unfolding k h n by (rule conjI)
qed

text \<open>
  C4. The per-user OPRF key depends only on the configuration, the oprf-seed and the
  credential-identifier: two servers with the same parameters, whatever their AKE state,
  random source, server public key, client record and masking nonce are, evaluate every
  element under one and the same key, and \<open>RegistrationResponse\<close> and the credential
  response succeed or fail together and carry the same evaluated element.
\<close>

theorem C4_oprf_key_deterministic:
  assumes "Parameters s1 = Parameters s2"
  shows "oprfResponse x s1 seed cid el = oprfResponse x s2 seed cid el \<and>
         (\<exists>ku. \<forall>e. oprfResponse x s1 seed cid e = Evaluate (OPRF (Parameters s1)) ku e \<and>
                    oprfResponse x s2 seed cid e = Evaluate (OPRF (Parameters s1)) ku e) \<and>
         map_sum (\<lambda>err. ()) RegistrationResponse.Data
           (RegistrationResponse x s1 \<lparr>RegistrationRequest.Data = el\<rparr> pks1 cid seed) =
         map_sum (\<lambda>err. ()) CredentialResponse.Data
           (credentialResponse x r s2 \<lparr>CredentialRequest.Data = el\<rparr> pks2 rec cid seed mn)"
proof -
  have eq: "oprfResponse x s1 seed cid e = oprfResponse x s2 seed cid e" for e
    using assms by (simp add: oprfResponse_def evaluate_def)
  have key: "\<exists>ku. \<forall>e. oprfResponse x s1 seed cid e = Evaluate (OPRF (Parameters s1)) ku e"
    by (simp add: oprfResponse_def evaluate_def Let_def) blast
  have resp: "map_sum (\<lambda>err. ()) RegistrationResponse.Data
                (RegistrationResponse x s1 \<lparr>RegistrationRequest.Data = el\<rparr> pks1 cid seed) =
              map_sum (\<lambda>err. ()) CredentialResponse.Data
                (credentialResponse x r s2 \<lparr>CredentialRequest.Data = el\<rparr> pks2 rec cid seed mn)"
    using assms
    by (simp add: RegistrationResponse_def credentialResponse_def eq [symmetric] Let_def
        split: sum.splits)
  from eq key resp show ?thesis by metis
qed

theorem C4_witness:
  "Parameters (NewServer ex_extern None) =
     Parameters ((NewServer ex_extern None)\<lparr>Ake := \<lparr>clientMac = [1], sessionSecret = [2]\<rparr>\<rparr>) \<and>
   oprfResponse ex_extern (NewServer ex_extern None) [1] [2] [3] =
     oprfResponse ex_extern
       ((NewServer ex_extern None)\<lparr>Ake := \<lparr>clientMac = [1], sessionSecret = [2]\<rparr>\<rparr>) [1] [2] [3]"
  using C4_oprf_key_deterministic [of "NewServer ex_extern None"
      "(NewServer ex_extern None)\<lparr>Ake := \<lparr>clientMac = [1], sessionSecret = [2]\<rparr>\<rparr>"
      ex_extern "[1]" "[2]" "[3]"]
  by simp



end
